theory Spec2Isabelle
  imports Complex_Main
begin

section \<open>Tensors and backend primitives\<close>

text \<open>
  The layers of \<^verbatim>\<open>keras/layers/recurrent.py\<close> compute on backend tensors. A tensor is
  modelled by the nested list of its entries over the reals: a vector \<open>(n,)\<close>, a matrix
  \<open>(samples, features)\<close> and a 3-D tensor \<open>(samples, time, features)\<close>. Nested lists
  stand for rectangular arrays; \<open>has_shape\<close> states the shape of a matrix and
  \<open>has_shape3\<close> that of a 3-D tensor. Element-wise operations pair the entries of their
  operands (the backend raises on operands whose shapes do not agree; the theorems
  below state the shapes they rely on).
\<close>

type_synonym vec = "real list"
type_synonym mat = "real list list"
type_synonym tensor3 = "real list list list"

definition has_shape :: "nat \<Rightarrow> nat \<Rightarrow> mat \<Rightarrow> bool" where
  "has_shape r c m = (length m = r \<and> list_all (\<lambda>row. length row = c) m)"


text \<open>Python exceptions, one constructor per class; a \<open>ValueError\<close> carries the site
  that raised it (the source distinguishes them by their messages).\<close>

datatype value_error =
    Initial_states_count nat nat
  | Cannot_unroll
  | Unknown_batch_size
  | States_count nat nat
  | State_shape nat
  | Unknown_implementation
  | Cannot_reshape

datatype error =
    ValueError value_error
  | AttributeError string
  | IndexError
  | TypeError
  | NotImplementedError

text \<open>\<^verbatim>\<open>K.zeros((r, c))\<close>, \<^verbatim>\<open>np.zeros((r, c))\<close>.\<close>

definition K_zeros :: "nat \<Rightarrow> nat \<Rightarrow> mat" where
  "K_zeros r c = replicate r (replicate c 0)"

text \<open>\<^verbatim>\<open>K.zeros_like\<close>, \<^verbatim>\<open>K.sum(x, axis=(1, 2))\<close>, \<^verbatim>\<open>K.expand_dims\<close> and
  \<^verbatim>\<open>K.tile(x, [1, n])\<close>, as \<^verbatim>\<open>get_initial_state\<close> uses them.\<close>

definition K_zeros_like3 :: "tensor3 \<Rightarrow> tensor3" where
  "K_zeros_like3 x = map (map (map (\<lambda>_. 0))) x"

definition K_zeros_like :: "mat \<Rightarrow> mat" where
  "K_zeros_like x = map (map (\<lambda>_. 0)) x"

definition K_sum_axes12 :: "tensor3 \<Rightarrow> vec" where
  "K_sum_axes12 x = map (\<lambda>sample. sum_list (map sum_list sample)) x"

definition K_expand_dims :: "vec \<Rightarrow> mat" where
  "K_expand_dims v = map (\<lambda>a. [a]) v"

definition K_tile :: "mat \<Rightarrow> nat \<Rightarrow> mat" where
  "K_tile x n = map (\<lambda>row. concat (replicate n row)) x"

text \<open>\<^verbatim>\<open>dimshuffle((1, 0, 2))\<close>: exchanges the first two axes of a 3-D tensor, between
  \<open>(samples, time, features)\<close> and the time-major list of per-timestep matrices.\<close>

definition dimshuffle :: "tensor3 \<Rightarrow> tensor3" where
  "dimshuffle x =
     (case x of [] \<Rightarrow> []
      | s # _ \<Rightarrow> map (\<lambda>t. map (\<lambda>sample. sample ! t) x) [0..<length s])"

text \<open>The mask \<open>(samples, time)\<close>, time-major: one column of per-sample flags for each
  timestep.\<close>

definition mask_columns :: "mat \<Rightarrow> vec list" where
  "mask_columns m =
     (case m of [] \<Rightarrow> []
      | r # _ \<Rightarrow> map (\<lambda>t. map (\<lambda>row. row ! t) m) [0..<length r])"

text \<open>\<^verbatim>\<open>T.switch(mask, a, b)\<close> with a per-sample mask broadcast over the features: row
  \<open>s\<close> of the result is that of \<open>a\<close> where the mask is non-zero and that of \<open>b\<close> elsewhere.\<close>

definition K_switch :: "vec \<Rightarrow> mat \<Rightarrow> mat \<Rightarrow> mat" where
  "K_switch m a b = map (\<lambda>(mv, ra, rb). if mv \<noteq> 0 then ra else rb) (zip m (zip a b))"

section \<open>The scan primitive \<^verbatim>\<open>K.rnn\<close>\<close>

text \<open>
  A step function takes the input of one timestep, the list of recurrent states and the
  constants of the layer (the source passes \<^verbatim>\<open>states + constants\<close> as one list and the
  step reads the constants at the positions after the recurrent states) and returns the
  output and the new states, or raises.
\<close>

type_synonym 'c step_fn = "mat \<Rightarrow> mat list \<Rightarrow> 'c \<Rightarrow> error + (mat \<times> mat list)"

text \<open>The loop of the scan without a mask: the states produced by one timestep are those
  the next one receives, the constants are the same at every timestep.\<close>

fun scan :: "'c step_fn \<Rightarrow> 'c \<Rightarrow> mat list \<Rightarrow> mat list \<Rightarrow> error + (mat list \<times> mat list)" where
  "scan step c [] st = Inr ([], st)"
| "scan step c (x # xs) st =
     (case step x st c of
        Inl e \<Rightarrow> Inl e
      | Inr (out, st') \<Rightarrow>
          (case scan step c xs st' of
             Inl e \<Rightarrow> Inl e
           | Inr (outs, stf) \<Rightarrow> Inr (out # outs, stf)))"

text \<open>The loop of the scan with a mask: a sample whose mask is zero at a timestep keeps
  its previous output and its previous states.\<close>

fun scan_masked ::
  "'c step_fn \<Rightarrow> 'c \<Rightarrow> (mat \<times> vec) list \<Rightarrow> mat \<Rightarrow> mat list \<Rightarrow> error + (mat list \<times> mat list)" where
  "scan_masked step c [] output_tm1 st = Inr ([], st)"
| "scan_masked step c ((x, m) # xs) output_tm1 st =
     (case step x st c of
        Inl e \<Rightarrow> Inl e
      | Inr (out, new_states) \<Rightarrow>
          (let output = K_switch m out output_tm1;
               return_states = map (\<lambda>(state, new_state). K_switch m new_state state)
                                   (zip st new_states)
           in case scan_masked step c xs output return_states of
                Inl e \<Rightarrow> Inl e
              | Inr (outs, stf) \<Rightarrow> Inr (output # outs, stf)))"

text \<open>
  Modelled from the spec: \<^verbatim>\<open>K.rnn\<close>, the backend's scan primitive, which is not part of
  \<^verbatim>\<open>recurrent.py\<close>. The spec calls it "the recurrence that folds a sequence of inputs
  into a sequence of hidden states under a fixed per-step transition function"; the class
  documentation of \<^verbatim>\<open>Recurrent\<close> adds that \<^verbatim>\<open>go_backwards\<close> processes the input sequence
  backwards and returns the reversed sequence, and that masked (padded) timesteps are
  supported. It returns the last output, the outputs of all timesteps as a tensor
  \<open>(samples, time, units)\<close> and the final states. A sequence without timesteps has no last
  output (\<^verbatim>\<open>outputs[-1]\<close>). A state that is \<^verbatim>\<open>None\<close> is not a tensor.
\<close>

definition K_rnn ::
  "'c step_fn \<Rightarrow> tensor3 \<Rightarrow> mat option list \<Rightarrow> bool \<Rightarrow> mat option \<Rightarrow> 'c
     \<Rightarrow> error + (mat \<times> tensor3 \<times> mat list)" where
  "K_rnn step_function inputs initial_states backwards msk constants =
     (case those initial_states of
        None \<Rightarrow> Inl TypeError
      | Some init \<Rightarrow>
          (let xs = dimshuffle inputs;
               seq = (if backwards then rev xs else xs);
               results =
                 (case msk of
                    None \<Rightarrow> scan step_function constants seq init
                  | Some m \<Rightarrow>
                      (case xs of
                         [] \<Rightarrow> Inl IndexError
                       | x0 # _ \<Rightarrow>
                           (case step_function x0 init constants of
                              Inl e \<Rightarrow> Inl e
                            | Inr (out0, _) \<Rightarrow>
                                (let ms = mask_columns m;
                                     mseq = (if backwards then rev ms else ms)
                                 in scan_masked step_function constants (zip seq mseq)
                                      (K_zeros_like out0) init))))
           in case results of
                Inl e \<Rightarrow> Inl e
              | Inr (outs, stf) \<Rightarrow>
                  (if outs = [] then Inl IndexError
                   else Inr (last outs, dimshuffle outs, stf))))"

section \<open>The base class \<^verbatim>\<open>Recurrent\<close>\<close>

text \<open>
  The attributes of a recurrent layer that the base class reads. \<open>states\<close> is the list
  \<^verbatim>\<open>self.states\<close> of backend variables (\<^verbatim>\<open>None\<close> until they are created) and
  \<open>batch_size\<close> is \<^verbatim>\<open>self.input_spec[0].shape[0]\<close>.
\<close>

record recurrent =
  return_sequences :: bool
  return_state :: bool
  go_backwards :: bool
  stateful :: bool
  unroll :: bool
  implementation :: int
  units :: nat
  dropout :: real
  recurrent_dropout :: real
  states :: "mat option list"
  batch_size :: "nat option"

text \<open>The backend's global state: the learning phase, and the random source that
  \<^verbatim>\<open>K.dropout\<close> draws from, with the position of the next draw.\<close>

record backend =
  learning_phase :: bool
  rng_source :: "nat \<Rightarrow> bool"
  rng_pos :: nat

text \<open>\<^verbatim>\<open>Recurrent.get_initial_state\<close>: an all-zero tensor of shape \<open>(samples, units)\<close> for
  each state of the layer.\<close>

definition get_initial_state :: "'a recurrent_scheme \<Rightarrow> tensor3 \<Rightarrow> mat list" where
  "get_initial_state L inputs =
     (let initial_state = K_zeros_like3 inputs;
          initial_state = K_sum_axes12 initial_state;
          initial_state = K_expand_dims initial_state;
          initial_state = K_tile initial_state (units L)
      in map (\<lambda>_. initial_state) [0..<length (states L)])"

text \<open>The arguments of \<^verbatim>\<open>call\<close>: \<^verbatim>\<open>inputs\<close> is a tensor or the list of a tensor and initial
  states that \<^verbatim>\<open>__call__\<close> builds; \<^verbatim>\<open>mask\<close> is a mask (or \<^verbatim>\<open>None\<close>) or the list of the
  masks of the listed inputs, which has a first element.\<close>

datatype call_inputs = Tensor tensor3 | TensorList tensor3 "mat list"

datatype call_mask = Mask "mat option" | MaskList "mat option" "mat option list"

datatype call_output = Sequences tensor3 | LastOutput mat

datatype call_result = Output call_output | OutputStates call_output "mat list"

text \<open>The updates \<^verbatim>\<open>(self.states[i], states[i])\<close> of a stateful layer, for every index of
  the final states.\<close>

definition state_updates :: "mat option list \<Rightarrow> mat list \<Rightarrow> error + mat option list" where
  "state_updates stored final =
     (if length stored < length final then Inl IndexError
      else Inr (map Some final @ drop (length final) stored))"

text \<open>The first lines of \<^verbatim>\<open>call\<close>: the input tensor is \<^verbatim>\<open>inputs[0]\<close> when \<^verbatim>\<open>inputs\<close>
  is a list, and the initial state is, in this order, the rest of that list, the
  argument \<^verbatim>\<open>initial_state\<close>, the stored states of a stateful layer, or the zeros of
  \<^verbatim>\<open>get_initial_state\<close>.\<close>

definition call_tensor :: "call_inputs \<Rightarrow> tensor3" where
  "call_tensor inputs = (case inputs of TensorList x _ \<Rightarrow> x | Tensor x \<Rightarrow> x)"

definition call_initial_state ::
  "'a recurrent_scheme \<Rightarrow> call_inputs \<Rightarrow> mat list option \<Rightarrow> mat option list" where
  "call_initial_state L inputs initial_state =
     (case inputs of
        TensorList _ sts \<Rightarrow> map Some sts
      | Tensor x \<Rightarrow>
          (case initial_state of
             Some sts \<Rightarrow> map Some sts
           | None \<Rightarrow>
               if stateful L then states L
               else map Some (get_initial_state L x)))"

definition call_mask_of :: "call_mask \<Rightarrow> mat option" where
  "call_mask_of msk = (case msk of MaskList m _ \<Rightarrow> m | Mask m \<Rightarrow> m)"

text \<open>
  \<^verbatim>\<open>Recurrent.call\<close>. The methods \<^verbatim>\<open>step\<close>, \<^verbatim>\<open>get_constants\<close> and \<^verbatim>\<open>preprocess_input\<close>
  that the subclasses override are parameters. \<open>time_dim\<close> is \<^verbatim>\<open>K.int_shape(inputs)[1]\<close>,
  the static length of the time axis when it is known. The argument \<^verbatim>\<open>training\<close> is
  accepted and \<^verbatim>\<open>None\<close> is what the two methods receive. The result comes with the layer
  (its stored states updated when it is stateful) and the backend state.
\<close>

definition Recurrent_call ::
  "'c step_fn
   \<Rightarrow> (tensor3 \<Rightarrow> bool option \<Rightarrow> backend \<Rightarrow> (error + 'c) \<times> backend)
   \<Rightarrow> (tensor3 \<Rightarrow> bool option \<Rightarrow> backend \<Rightarrow> (error + tensor3) \<times> backend)
   \<Rightarrow> 'a recurrent_scheme \<Rightarrow> call_inputs \<Rightarrow> call_mask \<Rightarrow> bool option
   \<Rightarrow> mat list option \<Rightarrow> nat option \<Rightarrow> backend
   \<Rightarrow> (error + call_result) \<times> 'a recurrent_scheme \<times> backend" where
  "Recurrent_call step get_constants preprocess_input L inputs msk training initial_state
       time_dim B =
     (let initial = call_initial_state L inputs initial_state;
          x = call_tensor inputs;
          mask0 = call_mask_of msk
      in if length initial \<noteq> length (states L)
         then (Inl (ValueError (Initial_states_count (length (states L)) (length initial))),
               L, B)
         else if unroll L \<and> time_dim = None then (Inl (ValueError Cannot_unroll), L, B)
         else
           (case get_constants x None B of
              (Inl e, B1) \<Rightarrow> (Inl e, L, B1)
            | (Inr constants, B1) \<Rightarrow>
                (case preprocess_input x None B1 of
                   (Inl e, B2) \<Rightarrow> (Inl e, L, B2)
                 | (Inr preprocessed_input, B2) \<Rightarrow>
                     (case K_rnn step preprocessed_input initial (go_backwards L) mask0
                             constants of
                        Inl e \<Rightarrow> (Inl e, L, B2)
                      | Inr (last_output, outputs, sts) \<Rightarrow>
                          (case (if stateful L then state_updates (states L) sts
                                 else Inr (states L)) of
                             Inl e \<Rightarrow> (Inl e, L, B2)
                           | Inr stored \<Rightarrow>
                               (let output = (if return_sequences L then Sequences outputs
                                              else LastOutput last_output)
                                in (Inr (if return_state L then OutputStates output sts
                                         else Output output),
                                    L\<lparr>states := stored\<rparr>, B2)))))))"

text \<open>The output among the results of \<^verbatim>\<open>call\<close> (the first element of the list when
  the states are returned too).\<close>

definition result_output :: "call_result \<Rightarrow> call_output" where
  "result_output res = (case res of Output out \<Rightarrow> out | OutputStates out _ \<Rightarrow> out)"

text \<open>\<^verbatim>\<open>K.set_value(state, value)\<close> on a stored state: \<^verbatim>\<open>None\<close> is not a variable.\<close>

definition K_set_value :: "mat option \<Rightarrow> mat \<Rightarrow> error + mat option" where
  "K_set_value state v =
     (case state of None \<Rightarrow> Inl (AttributeError ''set_value'') | Some _ \<Rightarrow> Inr (Some v))"

text \<open>The loop \<^verbatim>\<open>for state in self.states: K.set_value(state, np.zeros(...))\<close>. An
  exception leaves the states that were already set as they are.\<close>

fun zero_states :: "mat \<Rightarrow> mat option list \<Rightarrow> error option \<times> mat option list" where
  "zero_states z [] = (None, [])"
| "zero_states z (state # rest) =
     (case K_set_value state z of
        Inl e \<Rightarrow> (Some e, state # rest)
      | Inr s' \<Rightarrow> (case zero_states z rest of (r, rest') \<Rightarrow> (r, s' # rest')))"

text \<open>The loop \<^verbatim>\<open>for index, (value, state) in enumerate(zip(states, self.states))\<close>: the
  shape of each value is checked when its turn comes, after the earlier ones were
  stored.\<close>

fun set_states ::
  "nat \<Rightarrow> nat \<Rightarrow> nat \<Rightarrow> mat list \<Rightarrow> mat option list \<Rightarrow> error option \<times> mat option list" where
  "set_states bs u index (v # vs) (state # rest) =
     (if \<not> has_shape bs u v then (Some (ValueError (State_shape index)), state # rest)
      else
        (case K_set_value state v of
           Inl e \<Rightarrow> (Some e, state # rest)
         | Inr s' \<Rightarrow>
             (case set_states bs u (Suc index) vs rest of (r, rest') \<Rightarrow> (r, s' # rest'))))"
| "set_states bs u index vs rest = (None, rest)"

text \<open>\<^verbatim>\<open>Recurrent.reset_states\<close>: the exception raised, if any, and the layer.\<close>

definition reset_states ::
  "'a recurrent_scheme \<Rightarrow> mat list option \<Rightarrow> error option \<times> 'a recurrent_scheme" where
  "reset_states L new_states =
     (if \<not> stateful L then (Some (AttributeError ''Layer must be stateful.''), L)
      else
        (case batch_size L of
           None \<Rightarrow> (Some (ValueError Unknown_batch_size), L)
         | Some bs \<Rightarrow>
             if bs = 0 then (Some (ValueError Unknown_batch_size), L)
             else
               (case states L of
                  [] \<Rightarrow> (Some IndexError, L)
                | s0 # _ \<Rightarrow>
                    if s0 = None
                    then (None, L\<lparr>states := map (\<lambda>_. Some (K_zeros bs (units L))) (states L)\<rparr>)
                    else
                      (case new_states of
                         None \<Rightarrow>
                           (case zero_states (K_zeros bs (units L)) (states L) of
                              (r, stored) \<Rightarrow> (r, L\<lparr>states := stored\<rparr>))
                       | Some vs \<Rightarrow>
                           if length vs \<noteq> length (states L)
                           then (Some (ValueError (States_count (length (states L)) (length vs))),
                                 L)
                           else
                             (case set_states bs (units L) 0 vs (states L) of
                                (r, stored) \<Rightarrow> (r, L\<lparr>states := stored\<rparr>))))))"

text \<open>The methods of the base class: \<^verbatim>\<open>step\<close> raises, \<^verbatim>\<open>get_constants\<close> returns the empty
  list and \<^verbatim>\<open>preprocess_input\<close> returns its input.\<close>

definition Recurrent_step :: "unit step_fn" where
  "Recurrent_step inputs sts c = Inl NotImplementedError"

definition Recurrent_get_constants ::
  "tensor3 \<Rightarrow> bool option \<Rightarrow> backend \<Rightarrow> (error + unit) \<times> backend" where
  "Recurrent_get_constants inputs training B = (Inr (), B)"

definition Recurrent_preprocess_input ::
  "tensor3 \<Rightarrow> bool option \<Rightarrow> backend \<Rightarrow> (error + tensor3) \<times> backend" where
  "Recurrent_preprocess_input inputs training B = (Inr inputs, B)"

section \<open>Dense operations, dropout and the learning phase\<close>

text \<open>Element-wise product and sum of two matrices, \<^verbatim>\<open>1 - z\<close>, and an activation
  function applied to every entry.\<close>

definition emul :: "mat \<Rightarrow> mat \<Rightarrow> mat" where
  "emul a b = map2 (map2 (*)) a b"

definition eadd :: "mat \<Rightarrow> mat \<Rightarrow> mat" where
  "eadd a b = map2 (map2 (+)) a b"

definition one_minus :: "mat \<Rightarrow> mat" where
  "one_minus z = map (map (\<lambda>v. 1 - v)) z"

definition apply_activation :: "(real \<Rightarrow> real) \<Rightarrow> mat \<Rightarrow> mat" where
  "apply_activation f x = map (map f) x"

text \<open>\<^verbatim>\<open>K.dot(x, w)\<close> of a matrix \<open>(samples, n)\<close> and a weight matrix \<open>(n, m)\<close>, and
  \<^verbatim>\<open>K.bias_add\<close>.\<close>

definition K_dot :: "mat \<Rightarrow> mat \<Rightarrow> mat" where
  "K_dot x w = map (\<lambda>row. map (\<lambda>col. sum_list (map2 (*) row col)) (transpose w)) x"

definition K_bias_add :: "mat \<Rightarrow> vec \<Rightarrow> mat" where
  "K_bias_add x b = map (\<lambda>row. map2 (+) row b) x"

text \<open>The column slices \<^verbatim>\<open>w[:, i:j]\<close> of a matrix and \<^verbatim>\<open>b[i:j]\<close> of a vector.\<close>

definition cols :: "nat \<Rightarrow> nat \<Rightarrow> mat \<Rightarrow> mat" where
  "cols i j w = map (\<lambda>row. drop i (take j row)) w"

definition cols_from :: "nat \<Rightarrow> mat \<Rightarrow> mat" where
  "cols_from i w = map (drop i) w"

text \<open>A dropout constant of a layer: the scalar \<^verbatim>\<open>K.cast_to_floatx(1.)\<close> or a mask
  tensor; \<open>times_mask\<close> is the product \<^verbatim>\<open>x * mask\<close> with it.\<close>

datatype dmask = MScalar real | MTensor mat

definition times_mask :: "mat \<Rightarrow> dmask \<Rightarrow> mat" where
  "times_mask x m =
     (case m of MScalar a \<Rightarrow> map (map (\<lambda>v. v * a)) x | MTensor t \<Rightarrow> emul x t)"

definition K_ones_like :: "mat \<Rightarrow> mat" where
  "K_ones_like x = map (map (\<lambda>_. 1)) x"

text \<open>The static dimensions \<^verbatim>\<open>K.int_shape(x)[1]\<close> and \<^verbatim>\<open>K.int_shape(x)[2]\<close> of a 3-D
  tensor, and the slices \<^verbatim>\<open>x[:, 0, :]\<close> and \<^verbatim>\<open>x[:, 0, 0]\<close>, which need a first timestep
  (and a first feature).\<close>

definition dim1 :: "tensor3 \<Rightarrow> nat" where
  "dim1 x = (case x of [] \<Rightarrow> 0 | s # _ \<Rightarrow> length s)"

definition dim2 :: "tensor3 \<Rightarrow> nat" where
  "dim2 x = (case x of [] \<Rightarrow> 0 | s # _ \<Rightarrow> (case s of [] \<Rightarrow> 0 | r # _ \<Rightarrow> length r))"

definition slice_0 :: "tensor3 \<Rightarrow> error + mat" where
  "slice_0 x =
     (if list_all (\<lambda>sample. sample \<noteq> []) x then Inr (map hd x) else Inl IndexError)"

definition slice_00 :: "tensor3 \<Rightarrow> error + vec" where
  "slice_00 x =
     (if list_all (\<lambda>sample. sample \<noteq> [] \<and> hd sample \<noteq> []) x
      then Inr (map (\<lambda>sample. hd (hd sample)) x) else Inl IndexError)"

text \<open>The rows of a dropout mask, drawn entry by entry from the random source starting
  at position \<open>p\<close>.\<close>

fun dropout_row :: "(nat \<Rightarrow> bool) \<Rightarrow> real \<Rightarrow> nat \<Rightarrow> vec \<Rightarrow> vec" where
  "dropout_row src level p [] = []"
| "dropout_row src level p (v # vs) =
     (if src p then v / (1 - level) else 0) # dropout_row src level (Suc p) vs"

fun dropout_rows :: "(nat \<Rightarrow> bool) \<Rightarrow> real \<Rightarrow> nat \<Rightarrow> mat \<Rightarrow> mat" where
  "dropout_rows src level p [] = []"
| "dropout_rows src level p (r # rs) =
     dropout_row src level p r # dropout_rows src level (p + length r) rs"

text \<open>
  Modelled from the spec: \<^verbatim>\<open>K.dropout(x, level)\<close>, the backend's dropout, which is not
  part of \<^verbatim>\<open>recurrent.py\<close>. The spec describes its result on a tensor of ones as a "random
  binary/scaling mask": every entry is kept and scaled by \<open>1 / (1 - level)\<close>, or set to
  zero, by a draw of its own from the backend's random source, which advances by the
  number of entries.
\<close>

definition K_dropout :: "mat \<Rightarrow> real \<Rightarrow> backend \<Rightarrow> mat \<times> backend" where
  "K_dropout x level B =
     (dropout_rows (rng_source B) level (rng_pos B) x,
      B\<lparr>rng_pos := rng_pos B + sum_list (map length x)\<rparr>)"

text \<open>
  Modelled from the spec: \<^verbatim>\<open>K.in_train_phase(x, alt, training)\<close>, which is not part of
  \<^verbatim>\<open>recurrent.py\<close> ("dropout-mask generation tied to a training-phase flag"): \<open>x\<close> in
  the training phase and \<open>alt\<close> otherwise, where the phase is \<^verbatim>\<open>training\<close> or, when that
  is \<^verbatim>\<open>None\<close>, the learning phase of the backend. \<open>x\<close> may be a callable, which is called
  only when it is selected.
\<close>

definition K_in_train_phase ::
  "(backend \<Rightarrow> 'a \<times> backend) \<Rightarrow> 'a \<Rightarrow> bool option \<Rightarrow> backend \<Rightarrow> 'a \<times> backend" where
  "K_in_train_phase x alt training B =
     (if (case training of None \<Rightarrow> learning_phase B | Some t \<Rightarrow> t) then x B else (alt, B))"

text \<open>\<^verbatim>\<open>K.repeat(m, n)\<close>: a matrix \<open>(samples, dim)\<close> repeated \<open>n\<close> times along a new time
  axis; the element-wise product of two 3-D tensors; the reshapes of
  \<^verbatim>\<open>_time_distributed_dense\<close> between \<open>(samples, timesteps, dim)\<close> and
  \<open>(samples * timesteps, dim)\<close>.\<close>

definition K_repeat :: "mat \<Rightarrow> nat \<Rightarrow> tensor3" where
  "K_repeat m n = map (\<lambda>row. replicate n row) m"

definition emul3 :: "tensor3 \<Rightarrow> tensor3 \<Rightarrow> tensor3" where
  "emul3 a b = map2 emul a b"

fun chunks :: "nat \<Rightarrow> 'a list \<Rightarrow> 'a list list" where
  "chunks n xs = (if n = 0 \<or> xs = [] then [] else take n xs # chunks n (drop n xs))"

declare chunks.simps [simp del]

text \<open>The second half of \<^verbatim>\<open>_time_distributed_dense\<close>: the time and batch dimensions are
  collapsed, every row is multiplied by \<open>w\<close> and \<open>b\<close> is added, and the result is reshaped to
  \<open>(-1, timesteps, output_dim)\<close>, which raises when there are no timesteps.\<close>

definition dense_slices :: "tensor3 \<Rightarrow> mat \<Rightarrow> vec option \<Rightarrow> nat \<Rightarrow> error + tensor3" where
  "dense_slices x w b timesteps =
     (let y = K_dot (concat x) w;
          y = (case b of None \<Rightarrow> y | Some bv \<Rightarrow> K_bias_add y bv)
      in if timesteps = 0 then Inl (ValueError Cannot_reshape)
         else Inr (chunks timesteps y))"

text \<open>
  \<^verbatim>\<open>_time_distributed_dense(x, w, b, dropout, input_dim, output_dim, timesteps, training)\<close>:
  \<open>y . w + b\<close> for every temporal slice \<open>y\<close> of \<open>x\<close>, after the product of \<open>x\<close> with one
  dropout matrix repeated over the timesteps. The dimensions that the callers pass are
  those of \<open>x\<close> and \<open>w\<close>.
\<close>

definition time_distributed_dense ::
  "tensor3 \<Rightarrow> mat \<Rightarrow> vec option \<Rightarrow> real option \<Rightarrow> bool option \<Rightarrow> backend
     \<Rightarrow> (error + tensor3) \<times> backend" where
  "time_distributed_dense x w b drp training B =
     (let timesteps = dim1 x;
          dropped =
            (case drp of
               None \<Rightarrow> (Inr x, B)
             | Some level \<Rightarrow>
                 if 0 < level \<and> level < 1 then
                   (case slice_0 x of
                      Inl e \<Rightarrow> (Inl e, B)
                    | Inr x0 \<Rightarrow>
                        (let ones = K_ones_like x0;
                             (dropout_matrix, B1) = K_dropout ones level B;
                             expanded_dropout_matrix = K_repeat dropout_matrix timesteps;
                             (x', B2) = K_in_train_phase
                                          (\<lambda>B'. (emul3 x expanded_dropout_matrix, B')) x
                                          training B1
                         in (Inr x', B2)))
                 else (Inr x, B))
      in case dropped of
           (Inl e, B1) \<Rightarrow> (Inl e, B1)
         | (Inr x1, B1) \<Rightarrow> (dense_slices x1 w b timesteps, B1))"

text \<open>The dropout constant that the \<^verbatim>\<open>get_constants\<close> methods build for a rate in
  \<open>(0, 1)\<close>: a tensor of ones of shape \<open>(samples, n)\<close>, which \<^verbatim>\<open>K.in_train_phase\<close> replaces
  by a dropout mask of it in the training phase.\<close>

definition ones_tensor :: "tensor3 \<Rightarrow> nat \<Rightarrow> error + mat" where
  "ones_tensor inputs n =
     (case slice_00 inputs of
        Inl e \<Rightarrow> Inl e
      | Inr col \<Rightarrow> Inr (K_tile (K_ones_like (K_expand_dims col)) n))"

definition dropped_or_ones :: "mat \<Rightarrow> real \<Rightarrow> bool option \<Rightarrow> backend \<Rightarrow> mat \<times> backend" where
  "dropped_or_ones ones level training B =
     K_in_train_phase (\<lambda>B'. K_dropout ones level B') ones training B"

section \<open>\<^verbatim>\<open>SimpleRNN\<close>\<close>

text \<open>\<^verbatim>\<open>self.bias\<close> is \<^verbatim>\<open>None\<close> when the layer is built without a bias.\<close>

record simple_rnn = recurrent +
  kernel :: mat
  recurrent_kernel :: mat
  bias :: "vec option"
  activation :: "(real \<Rightarrow> real) option"

definition SimpleRNN_preprocess_input ::
  "'a simple_rnn_scheme \<Rightarrow> tensor3 \<Rightarrow> bool option \<Rightarrow> backend \<Rightarrow> (error + tensor3) \<times> backend" where
  "SimpleRNN_preprocess_input L inputs training B =
     (if implementation L > 0 then (Inr inputs, B)
      else time_distributed_dense inputs (simple_rnn.kernel L) (simple_rnn.bias L)
             (Some (dropout L)) training B)"

definition SimpleRNN_step :: "'a simple_rnn_scheme \<Rightarrow> (dmask \<times> dmask) step_fn" where
  "SimpleRNN_step L inputs sts constants =
     (case sts of
        [] \<Rightarrow> Inl IndexError
      | prev # _ \<Rightarrow>
          (let h = (if implementation L = 0 then inputs
                    else
                      (let h0 = (if 0 < dropout L \<and> dropout L < 1
                                 then K_dot (times_mask inputs (fst constants))
                                        (simple_rnn.kernel L)
                                 else K_dot inputs (simple_rnn.kernel L))
                       in case simple_rnn.bias L of
                            Some b \<Rightarrow> K_bias_add h0 b
                          | None \<Rightarrow> h0));
               prev_output = (if 0 < recurrent_dropout L \<and> recurrent_dropout L < 1
                              then times_mask prev (snd constants) else prev);
               output = eadd h (K_dot prev_output (simple_rnn.recurrent_kernel L));
               output = (case simple_rnn.activation L of
                           Some f \<Rightarrow> apply_activation f output
                         | None \<Rightarrow> output)
           in Inr (output, [output])))"

definition SimpleRNN_get_constants ::
  "'a simple_rnn_scheme \<Rightarrow> tensor3 \<Rightarrow> bool option \<Rightarrow> backend
     \<Rightarrow> (error + dmask \<times> dmask) \<times> backend" where
  "SimpleRNN_get_constants L inputs training B =
     (case (if implementation L \<noteq> 0 \<and> 0 < dropout L \<and> dropout L < 1 then
              (case ones_tensor inputs (dim2 inputs) of
                 Inl e \<Rightarrow> (Inl e, B)
               | Inr ones \<Rightarrow>
                   (case dropped_or_ones ones (dropout L) training B of
                      (dp_mask, B1) \<Rightarrow> (Inr (MTensor dp_mask), B1)))
            else (Inr (MScalar 1), B)) of
        (Inl e, B1) \<Rightarrow> (Inl e, B1)
      | (Inr dp_mask, B1) \<Rightarrow>
          (case (if 0 < recurrent_dropout L \<and> recurrent_dropout L < 1 then
                   (case ones_tensor inputs (units L) of
                      Inl e \<Rightarrow> (Inl e, B1)
                    | Inr ones \<Rightarrow>
                        (case dropped_or_ones ones (recurrent_dropout L) training B1 of
                           (rec_dp_mask, B2) \<Rightarrow> (Inr (MTensor rec_dp_mask), B2)))
                 else (Inr (MScalar 1), B1)) of
             (Inl e, B2) \<Rightarrow> (Inl e, B2)
           | (Inr rec_dp_mask, B2) \<Rightarrow> (Inr (dp_mask, rec_dp_mask), B2)))"


section \<open>\<^verbatim>\<open>GRU\<close>\<close>

text \<open>A \<^verbatim>\<open>GRU\<close> layer. The kernels hold the weights of the update gate \<open>z\<close>, the reset
  gate \<open>r\<close> and the candidate \<open>h\<close> side by side; \<^verbatim>\<open>build\<close> slices them. \<^verbatim>\<open>use_bias\<close> is
  true exactly when \<^verbatim>\<open>self.bias\<close> is not \<^verbatim>\<open>None\<close>.\<close>

record gru = recurrent +
  kernel :: mat
  recurrent_kernel :: mat
  bias :: "vec option"
  activation :: "real \<Rightarrow> real"
  recurrent_activation :: "real \<Rightarrow> real"

definition add_bias :: "mat \<Rightarrow> vec option \<Rightarrow> mat" where
  "add_bias x b = (case b of None \<Rightarrow> x | Some bv \<Rightarrow> K_bias_add x bv)"

text \<open>The constants of a \<^verbatim>\<open>GRU\<close> step: the three dropout masks of the inputs and the
  three of the recurrent connection (\<^verbatim>\<open>states[1]\<close> and \<^verbatim>\<open>states[2]\<close>).\<close>

type_synonym gru_constants = "(dmask \<times> dmask \<times> dmask) \<times> (dmask \<times> dmask \<times> dmask)"

text \<open>The first part of \<^verbatim>\<open>GRU.step\<close>: the update gate \<open>z\<close> and the candidate \<open>hh\<close>, in
  each of the three implementations.\<close>

definition GRU_gates ::
  "'a gru_scheme \<Rightarrow> mat \<Rightarrow> mat \<Rightarrow> gru_constants \<Rightarrow> error + (mat \<times> mat)" where
  "GRU_gates L inputs h_tm1 constants =
     (let u = units L;
          (dp0, dp1, dp2) = fst constants;
          (rec0, rec1, rec2) = snd constants;
          act = apply_activation (gru.activation L);
          ract = apply_activation (gru.recurrent_activation L)
      in if implementation L = 2 then
           (let matrix_x = add_bias (K_dot (times_mask inputs dp0) (gru.kernel L)) (gru.bias L);
                matrix_inner = K_dot (times_mask h_tm1 rec0)
                                 (cols 0 (2 * u) (gru.recurrent_kernel L));
                x_z = cols 0 u matrix_x;
                x_r = cols u (2 * u) matrix_x;
                recurrent_z = cols 0 u matrix_inner;
                recurrent_r = cols u (2 * u) matrix_inner;
                z = ract (eadd x_z recurrent_z);
                r = ract (eadd x_r recurrent_r);
                x_h = cols_from (2 * u) matrix_x;
                recurrent_h = K_dot (times_mask (emul r h_tm1) rec0)
                                (cols_from (2 * u) (gru.recurrent_kernel L));
                hh = act (eadd x_h recurrent_h)
            in Inr (z, hh))
         else
           (case (if implementation L = 0 then
                    Inr (cols 0 u inputs, cols u (2 * u) inputs, cols_from (2 * u) inputs)
                  else if implementation L = 1 then
                    Inr (add_bias (K_dot (times_mask inputs dp0) (cols 0 u (gru.kernel L)))
                           (map_option (take u) (gru.bias L)),
                         add_bias (K_dot (times_mask inputs dp1) (cols u (2 * u) (gru.kernel L)))
                           (map_option (\<lambda>b. drop u (take (2 * u) b)) (gru.bias L)),
                         add_bias (K_dot (times_mask inputs dp2) (cols_from (2 * u) (gru.kernel L)))
                           (map_option (drop (2 * u)) (gru.bias L)))
                  else Inl (ValueError Unknown_implementation)) of
              Inl e \<Rightarrow> Inl e
            | Inr (x_z, x_r, x_h) \<Rightarrow>
                (let z = ract (eadd x_z (K_dot (times_mask h_tm1 rec0)
                                           (cols 0 u (gru.recurrent_kernel L))));
                     r = ract (eadd x_r (K_dot (times_mask h_tm1 rec1)
                                           (cols u (2 * u) (gru.recurrent_kernel L))));
                     hh = act (eadd x_h (K_dot (times_mask (emul r h_tm1) rec2)
                                           (cols_from (2 * u) (gru.recurrent_kernel L))))
                 in Inr (z, hh))))"

text \<open>\<^verbatim>\<open>GRU.step\<close>: the new state \<^verbatim>\<open>h = z * h_tm1 + (1 - z) * hh\<close> is the output and the
  only state.\<close>

definition GRU_step :: "'a gru_scheme \<Rightarrow> gru_constants step_fn" where
  "GRU_step L inputs sts constants =
     (case sts of
        [] \<Rightarrow> Inl IndexError
      | h_tm1 # _ \<Rightarrow>
          (case GRU_gates L inputs h_tm1 constants of
             Inl e \<Rightarrow> Inl e
           | Inr (z, hh) \<Rightarrow>
               (let h = eadd (emul z h_tm1) (emul (one_minus z) hh)
                in Inr (h, [h]))))"

text \<open>The list \<^verbatim>\<open>[K.in_train_phase(dropped_inputs, ones, training) for _ in range(3)]\<close>: in
  the training phase each of its elements is a dropout mask of its own.\<close>

definition three_masks ::
  "mat \<Rightarrow> real \<Rightarrow> bool option \<Rightarrow> backend \<Rightarrow> (dmask \<times> dmask \<times> dmask) \<times> backend" where
  "three_masks ones level training B =
     (case dropped_or_ones ones level training B of
        (m0, B1) \<Rightarrow>
          (case dropped_or_ones ones level training B1 of
             (m1, B2) \<Rightarrow>
               (case dropped_or_ones ones level training B2 of
                  (m2, B3) \<Rightarrow> ((MTensor m0, MTensor m1, MTensor m2), B3))))"





section \<open>\<^verbatim>\<open>LSTM\<close>\<close>

text \<open>An \<^verbatim>\<open>LSTM\<close> layer: the kernels hold the weights of the input gate \<open>i\<close>, the forget
  gate \<open>f\<close>, the candidate \<open>c\<close> and the output gate \<open>o\<close> side by side.\<close>

record lstm = recurrent +
  kernel :: mat
  recurrent_kernel :: mat
  bias :: "vec option"
  activation :: "real \<Rightarrow> real"
  recurrent_activation :: "real \<Rightarrow> real"

type_synonym lstm_constants =
  "(dmask \<times> dmask \<times> dmask \<times> dmask) \<times> (dmask \<times> dmask \<times> dmask \<times> dmask)"

text \<open>\<^verbatim>\<open>K.dot(...) + self.bias_i\<close> of implementation 1, which has no test of
  \<^verbatim>\<open>use_bias\<close>: a tensor plus \<^verbatim>\<open>None\<close> raises.\<close>

definition plus_bias :: "mat \<Rightarrow> vec option \<Rightarrow> error + mat" where
  "plus_bias x b = (case b of None \<Rightarrow> Inl TypeError | Some bv \<Rightarrow> Inr (K_bias_add x bv))"

text \<open>The first part of \<^verbatim>\<open>LSTM.step\<close>: the gates \<open>i\<close>, \<open>f\<close> and \<open>o\<close> and the activated
  candidate, in each of the three implementations.\<close>

definition LSTM_gates ::
  "'a lstm_scheme \<Rightarrow> mat \<Rightarrow> mat \<Rightarrow> lstm_constants \<Rightarrow> error + (mat \<times> mat \<times> mat \<times> mat)" where
  "LSTM_gates L inputs h_tm1 constants =
     (let u = units L;
          (dp0, dp1, dp2, dp3) = fst constants;
          (rec0, rec1, rec2, rec3) = snd constants;
          act = apply_activation (lstm.activation L);
          ract = apply_activation (lstm.recurrent_activation L)
      in if implementation L = 2 then
           (let z = K_dot (times_mask inputs dp0) (lstm.kernel L);
                z = eadd z (K_dot (times_mask h_tm1 rec0) (lstm.recurrent_kernel L));
                z = add_bias z (lstm.bias L);
                z0 = cols 0 u z;
                z1 = cols u (2 * u) z;
                z2 = cols (2 * u) (3 * u) z;
                z3 = cols_from (3 * u) z
            in Inr (ract z0, ract z1, act z2, ract z3))
         else
           (case (if implementation L = 0 then
                    Inr (cols 0 u inputs, cols u (2 * u) inputs,
                         cols (2 * u) (3 * u) inputs, cols_from (3 * u) inputs)
                  else if implementation L = 1 then
                    (case plus_bias (K_dot (times_mask inputs dp0) (cols 0 u (lstm.kernel L)))
                            (map_option (take u) (lstm.bias L)) of
                       Inl e \<Rightarrow> Inl e
                     | Inr x_i \<Rightarrow>
                    (case plus_bias (K_dot (times_mask inputs dp1)
                                       (cols u (2 * u) (lstm.kernel L)))
                            (map_option (\<lambda>b. drop u (take (2 * u) b)) (lstm.bias L)) of
                       Inl e \<Rightarrow> Inl e
                     | Inr x_f \<Rightarrow>
                    (case plus_bias (K_dot (times_mask inputs dp2)
                                       (cols (2 * u) (3 * u) (lstm.kernel L)))
                            (map_option (\<lambda>b. drop (2 * u) (take (3 * u) b)) (lstm.bias L)) of
                       Inl e \<Rightarrow> Inl e
                     | Inr x_c \<Rightarrow>
                    (case plus_bias (K_dot (times_mask inputs dp3)
                                       (cols_from (3 * u) (lstm.kernel L)))
                            (map_option (drop (3 * u)) (lstm.bias L)) of
                       Inl e \<Rightarrow> Inl e
                     | Inr x_o \<Rightarrow> Inr (x_i, x_f, x_c, x_o)))))
                  else Inl (ValueError Unknown_implementation)) of
              Inl e \<Rightarrow> Inl e
            | Inr (x_i, x_f, x_c, x_o) \<Rightarrow>
                Inr (ract (eadd x_i (K_dot (times_mask h_tm1 rec0)
                                       (cols 0 u (lstm.recurrent_kernel L)))),
                     ract (eadd x_f (K_dot (times_mask h_tm1 rec1)
                                       (cols u (2 * u) (lstm.recurrent_kernel L)))),
                     act (eadd x_c (K_dot (times_mask h_tm1 rec2)
                                      (cols (2 * u) (3 * u) (lstm.recurrent_kernel L)))),
                     ract (eadd x_o (K_dot (times_mask h_tm1 rec3)
                                       (cols_from (3 * u) (lstm.recurrent_kernel L)))))))"

text \<open>\<^verbatim>\<open>LSTM.step\<close>: the new cell state \<^verbatim>\<open>c = f * c_tm1 + i * activation(...)\<close>, the
  output \<^verbatim>\<open>h = o * activation(c)\<close>, and the new states \<^verbatim>\<open>[h, c]\<close>.\<close>

definition LSTM_step :: "'a lstm_scheme \<Rightarrow> lstm_constants step_fn" where
  "LSTM_step L inputs sts constants =
     (case sts of
        h_tm1 # c_tm1 # _ \<Rightarrow>
          (case LSTM_gates L inputs h_tm1 constants of
             Inl e \<Rightarrow> Inl e
           | Inr (i, f, candidate, og) \<Rightarrow>
               (let c = eadd (emul f c_tm1) (emul i candidate);
                    h = emul og (apply_activation (lstm.activation L) c)
                in Inr (h, [h, c])))
      | _ \<Rightarrow> Inl IndexError)"

text \<open>The list \<^verbatim>\<open>[K.in_train_phase(dropped_inputs, ones, training) for _ in range(4)]\<close>.\<close>

definition four_masks ::
  "mat \<Rightarrow> real \<Rightarrow> bool option \<Rightarrow> backend
     \<Rightarrow> (dmask \<times> dmask \<times> dmask \<times> dmask) \<times> backend" where
  "four_masks ones level training B =
     (case dropped_or_ones ones level training B of
        (m0, B1) \<Rightarrow>
          (case dropped_or_ones ones level training B1 of
             (m1, B2) \<Rightarrow>
               (case dropped_or_ones ones level training B2 of
                  (m2, B3) \<Rightarrow>
                    (case dropped_or_ones ones level training B3 of
                       (m3, B4) \<Rightarrow>
                         ((MTensor m0, MTensor m1, MTensor m2, MTensor m3), B4)))))"




section \<open>Notions of the specification\<close>

text \<open>The initial states that a call supplies: as the extra elements of the input list,
  or as the argument \<^verbatim>\<open>initial_state\<close>.\<close>

definition supplied_states :: "call_inputs \<Rightarrow> mat list option \<Rightarrow> mat list option" where
  "supplied_states inputs initial_state =
     (case inputs of TensorList _ sts \<Rightarrow> Some sts | Tensor _ \<Rightarrow> initial_state)"

text \<open>The recurrence in the words of the specification: the states after \<open>t\<close> timesteps
  of the sequence \<open>xs\<close> are the initial states when \<open>t = 0\<close>, and otherwise those that the
  step function produces from the input at timestep \<open>t - 1\<close> and the states after
  \<open>t - 1\<close> timesteps.\<close>

fun state_after :: "'c step_fn \<Rightarrow> 'c \<Rightarrow> mat list \<Rightarrow> mat list \<Rightarrow> nat \<Rightarrow> error + mat list" where
  "state_after step c xs s0 0 = Inr s0"
| "state_after step c xs s0 (Suc t) =
     (case state_after step c xs s0 t of
        Inl e \<Rightarrow> Inl e
      | Inr s \<Rightarrow> (case step (xs ! t) s c of Inl e \<Rightarrow> Inl e | Inr (_, s') \<Rightarrow> Inr s'))"








section \<open>Example layers\<close>

definition example_backend :: backend where
  "example_backend = \<lparr>learning_phase = True, rng_source = (\<lambda>i. even i), rng_pos = 0\<rparr>"

definition example_rnn :: simple_rnn where
  "example_rnn =
     \<lparr>return_sequences = True, return_state = False, go_backwards = False, stateful = False,
      unroll = False, implementation = 2, units = 1, dropout = 0, recurrent_dropout = 0,
      states = [None], batch_size = None,
      simple_rnn.kernel = [[1]], simple_rnn.recurrent_kernel = [[2]],
      simple_rnn.bias = None, simple_rnn.activation = None\<rparr>"



text \<open>The hard sigmoid, the default recurrent activation of \<^verbatim>\<open>GRU\<close> and \<^verbatim>\<open>LSTM\<close>;
  layers without dropout, and their constants.\<close>

definition hard_sigmoid :: "real \<Rightarrow> real" where
  "hard_sigmoid x = max 0 (min 1 (x / 5 + 1 / 2))"

definition example_gru :: gru where
  "example_gru =
     \<lparr>return_sequences = False, return_state = False, go_backwards = False, stateful = False,
      unroll = False, implementation = 2, units = 1, dropout = 0, recurrent_dropout = 0,
      states = [None], batch_size = None,
      gru.kernel = [[1, 1, 1]], gru.recurrent_kernel = [[1, 1, 1]], gru.bias = None,
      gru.activation = (\<lambda>x. x), gru.recurrent_activation = hard_sigmoid\<rparr>"

definition example_lstm :: lstm where
  "example_lstm =
     \<lparr>return_sequences = False, return_state = False, go_backwards = False, stateful = False,
      unroll = False, implementation = 2, units = 1, dropout = 0, recurrent_dropout = 0,
      states = [None, None], batch_size = None,
      lstm.kernel = [[1, 1, 1, 1]], lstm.recurrent_kernel = [[1, 1, 1, 1]], lstm.bias = None,
      lstm.activation = (\<lambda>x. x), lstm.recurrent_activation = hard_sigmoid\<rparr>"



definition no_masks3 :: gru_constants where
  "no_masks3 = ((MScalar 1, MScalar 1, MScalar 1), (MScalar 1, MScalar 1, MScalar 1))"

definition no_masks4 :: lstm_constants where
  "no_masks4 = ((MScalar 1, MScalar 1, MScalar 1, MScalar 1),
                (MScalar 1, MScalar 1, MScalar 1, MScalar 1))"

definition example_stateful :: recurrent where
  "example_stateful =
     \<lparr>return_sequences = True, return_state = False, go_backwards = False, stateful = True,
      unroll = False, implementation = 2, units = 1, dropout = 0, recurrent_dropout = 0,
      states = [Some [[0]], Some [[0]]], batch_size = Some 1\<rparr>"

section \<open>Initial states\<close>

lemma concat_replicate_single: "concat (replicate n [a]) = replicate n a"
  by (induction n) auto

lemma sum_zeros_sample:
  "(\<Sum>row\<leftarrow>sample. sum_list (replicate (length row) (0::real))) = 0"
  by (induction sample) (auto simp: sum_list_replicate)

lemma get_initial_state_zeros:
  "get_initial_state L x = replicate (length (states L)) (K_zeros (length x) (units L))"
  by (simp add: get_initial_state_def K_zeros_def K_tile_def K_expand_dims_def K_sum_axes12_def
      K_zeros_like3_def Let_def map_replicate_const o_def concat_replicate_single
      sum_zeros_sample)

section \<open>Errors of the scan\<close>

lemma scan_error:
  assumes "\<And>x st. step x st c \<noteq> Inl err"
  shows "scan step c xs st \<noteq> Inl err"
  using assms by (induction xs arbitrary: st) (auto split: sum.splits prod.splits)

lemma scan_masked_error:
  assumes "\<And>x st. step x st c \<noteq> Inl err"
  shows "scan_masked step c xms out st \<noteq> Inl err"
  using assms
  by (induction xms arbitrary: out st) (auto split: sum.splits prod.splits simp: Let_def)

lemma K_rnn_error:
  assumes "\<And>x st. step x st c \<noteq> Inl (ValueError v)"
  shows "K_rnn step x initial bw m c \<noteq> Inl (ValueError v)"
  using scan_error[of step c "ValueError v"] scan_masked_error[of step c "ValueError v"] assms
  by (auto simp: K_rnn_def Let_def
      split: option.splits sum.splits prod.splits list.splits if_splits)

section \<open>The check of the number of initial states\<close>

text \<open>
  Claim C9. \<^verbatim>\<open>Recurrent.call\<close> raises the \<^verbatim>\<open>ValueError\<close> "Layer has n states but was
  passed k initial states" exactly when initial states are supplied (as the extra
  elements of the input list or as \<^verbatim>\<open>initial_state\<close>) and their number \<open>k\<close> differs from
  the number \<open>n\<close> of states of the layer; when it is raised, the layer and the backend
  state are as before the call, so neither the constants nor the recurrence were
  computed. (The overridden methods raise errors of their own; that none of them raises
  this one is the hypothesis.)
\<close>

theorem call_checks_initial_state_count:
  assumes "\<And>x st c. step x st c \<noteq> Inl (ValueError (Initial_states_count n k))"
    and "\<And>x t b. fst (gc x t b) \<noteq> Inl (ValueError (Initial_states_count n k))"
    and "\<And>x t b. fst (pp x t b) \<noteq> Inl (ValueError (Initial_states_count n k))"
  shows "(fst (Recurrent_call step gc pp L inputs msk training initial_state time_dim B)
            = Inl (ValueError (Initial_states_count n k))
          \<longleftrightarrow> (\<exists>sts. supplied_states inputs initial_state = Some sts \<and> k = length sts
                \<and> n = length (states L) \<and> k \<noteq> n))
         \<and> (fst (Recurrent_call step gc pp L inputs msk training initial_state time_dim B)
               = Inl (ValueError (Initial_states_count n k))
             \<longrightarrow> snd (Recurrent_call step gc pp L inputs msk training initial_state
                       time_dim B) = (L, B))"
proof (cases "length (call_initial_state L inputs initial_state) = length (states L)")
  case False
  then obtain sts where "supplied_states inputs initial_state = Some sts"
    and "call_initial_state L inputs initial_state = map Some sts"
    by (cases inputs; cases initial_state)
       (auto simp: supplied_states_def call_initial_state_def get_initial_state_zeros
             split: if_splits)
  with False show ?thesis
    by (auto simp: Recurrent_call_def Let_def)
next
  case True
  have "\<not> (\<exists>sts. supplied_states inputs initial_state = Some sts \<and> k = length sts
               \<and> n = length (states L) \<and> k \<noteq> n)"
    using True
    by (cases inputs; cases initial_state)
       (auto simp: supplied_states_def call_initial_state_def)
  moreover have "fst (Recurrent_call step gc pp L inputs msk training initial_state time_dim B)
           \<noteq> Inl (ValueError (Initial_states_count n k))"
    using True assms(2)[of "call_tensor inputs" None B]
      K_rnn_error[of step _ "Initial_states_count n k", OF assms(1)]
    apply (auto simp: Recurrent_call_def Let_def state_updates_def
                split: prod.splits sum.splits if_splits)
     apply (metis assms(3) fst_conv)+
    done
  ultimately show ?thesis by blast
qed

theorem call_checks_initial_state_count_witness:
  "fst (Recurrent_call Recurrent_step Recurrent_get_constants Recurrent_preprocess_input
          example_stateful (TensorList [[[1]]] [[[0]]]) (Mask None) None None None
          example_backend)
     = Inl (ValueError (Initial_states_count 2 1))
   \<and> snd (Recurrent_call Recurrent_step Recurrent_get_constants Recurrent_preprocess_input
          example_stateful (TensorList [[[1]]] [[[0]]]) (Mask None) None None None
          example_backend)
     = (example_stateful, example_backend)"
proof -
  have a: "\<And>x st c. Recurrent_step x st c \<noteq> Inl (ValueError (Initial_states_count 2 1))"
    by (simp add: Recurrent_step_def)
  have b: "\<And>x t b. fst (Recurrent_get_constants x t b)
                   \<noteq> Inl (ValueError (Initial_states_count 2 1))"
    by (simp add: Recurrent_get_constants_def)
  have c: "\<And>x t b. fst (Recurrent_preprocess_input x t b)
                   \<noteq> Inl (ValueError (Initial_states_count 2 1))"
    by (simp add: Recurrent_preprocess_input_def)
  show ?thesis
    using call_checks_initial_state_count[of Recurrent_step 2 1 Recurrent_get_constants
        Recurrent_preprocess_input example_stateful "TensorList [[[1]]] [[[0]]]" "Mask None"
        None None None example_backend, OF a b c]
    by (simp add: supplied_states_def example_stateful_def)
qed

section \<open>Resetting the stored states\<close>

lemma zero_states_all_set:
  "list_all (\<lambda>s. s \<noteq> None) ss \<Longrightarrow> zero_states z ss = (None, replicate (length ss) (Some z))"
  by (induction ss) (auto simp: K_set_value_def split: option.splits)

lemma zero_states_error:
  "fst (zero_states z ss) \<noteq> Some (AttributeError ''Layer must be stateful.'')"
  by (induction ss) (auto simp: K_set_value_def split: option.splits prod.splits)

lemma set_states_error:
  "fst (set_states b u i vs ss) \<noteq> Some (AttributeError ''Layer must be stateful.'')"
  by (induction b u i vs ss rule: set_states.induct)
     (auto simp: K_set_value_def split: option.splits prod.splits)

lemma set_states_mismatch:
  "length vs = length ss \<Longrightarrow> list_all (\<lambda>s. s \<noteq> None) ss \<Longrightarrow> k < length vs \<Longrightarrow>
   \<not> has_shape bs u (vs ! k) \<Longrightarrow> (\<forall>j<k. has_shape bs u (vs ! j)) \<Longrightarrow>
   set_states bs u i vs ss
     = (Some (ValueError (State_shape (i + k))), map Some (take k vs) @ drop k ss)"
proof (induction vs arbitrary: ss k i)
  case Nil
  then show ?case by simp
next
  case (Cons v vs)
  then obtain w rest where ss: "ss = Some w # rest" by (cases ss) auto
  show ?case
  proof (cases k)
    case 0
    then show ?thesis using Cons.prems ss by simp
  next
    case (Suc k')
    have hv: "has_shape bs u v" using Cons.prems(5) Suc by auto
    have "set_states bs u (Suc i) vs rest =
            (Some (ValueError (State_shape (Suc i + k'))),
             map Some (take k' vs) @ drop k' rest)"
      using Cons.prems Suc ss by (intro Cons.IH) auto
    then show ?thesis using hv ss Suc by (simp add: K_set_value_def)
  qed
qed

text \<open>
  Claim C10, as the code has it. \<^verbatim>\<open>reset_states\<close> raises the \<^verbatim>\<open>AttributeError\<close> "Layer
  must be stateful." if and only if the layer is not stateful, and then leaves the layer
  as it is. On a stateful layer with a known batch size \<open>bs\<close> and no argument, every
  stored state becomes the all-zero array of shape \<open>(bs, units)\<close>. On a stateful layer
  whose stored states exist, passing a list of another length raises \<^verbatim>\<open>ValueError\<close> and
  changes nothing; passing a list of the right length whose first value of another shape
  than \<open>(bs, units)\<close> is at index \<open>k\<close> raises \<^verbatim>\<open>ValueError\<close> for state \<open>k\<close> after the
  states before \<open>k\<close> were set to the values passed, and leaves the states from \<open>k\<close> on
  unchanged.
\<close>

theorem reset_states_behaviour:
  "(fst (reset_states L ns) = Some (AttributeError ''Layer must be stateful.'')
      \<longleftrightarrow> \<not> stateful L)
   \<and> (\<not> stateful L \<longrightarrow> snd (reset_states L ns) = L)
   \<and> (stateful L \<and> batch_size L = Some bs \<and> 0 < bs \<and> states L \<noteq> []
        \<and> (hd (states L) = None \<or> list_all (\<lambda>s. s \<noteq> None) (states L)) \<longrightarrow>
        reset_states L None =
          (None, L\<lparr>states := replicate (length (states L)) (Some (K_zeros bs (units L)))\<rparr>))
   \<and> (stateful L \<and> batch_size L = Some bs \<and> 0 < bs \<and> states L \<noteq> []
        \<and> list_all (\<lambda>s. s \<noteq> None) (states L) \<longrightarrow>
        (length vs \<noteq> length (states L) \<longrightarrow>
           reset_states L (Some vs) =
             (Some (ValueError (States_count (length (states L)) (length vs))), L))
        \<and> (length vs = length (states L) \<and> k < length vs
             \<and> \<not> has_shape bs (units L) (vs ! k)
             \<and> (\<forall>j<k. has_shape bs (units L) (vs ! j)) \<longrightarrow>
           reset_states L (Some vs) =
             (Some (ValueError (State_shape k)),
              L\<lparr>states := map Some (take k vs) @ drop k (states L)\<rparr>)))"
proof (intro conjI impI)
  show "fst (reset_states L ns) = Some (AttributeError ''Layer must be stateful.'')
          \<longleftrightarrow> \<not> stateful L"
  proof
    assume a: "fst (reset_states L ns) = Some (AttributeError ''Layer must be stateful.'')"
    show "\<not> stateful L"
    proof
      assume st: "stateful L"
      from a st show False
        using zero_states_error[of "K_zeros (the (batch_size L)) (units L)" "states L"]
        apply (auto simp: reset_states_def
                    split: option.splits list.splits if_splits prod.splits)
        apply (metis set_states_error fst_conv)
        done
    qed
  next
    assume "\<not> stateful L"
    then show "fst (reset_states L ns) = Some (AttributeError ''Layer must be stateful.'')"
      by (simp add: reset_states_def)
  qed
next
  assume "\<not> stateful L"
  then show "snd (reset_states L ns) = L" by (simp add: reset_states_def)
next
  assume "stateful L \<and> batch_size L = Some bs \<and> 0 < bs \<and> states L \<noteq> []
        \<and> (hd (states L) = None \<or> list_all (\<lambda>s. s \<noteq> None) (states L))"
  then show "reset_states L None =
          (None, L\<lparr>states := replicate (length (states L)) (Some (K_zeros bs (units L)))\<rparr>)"
    by (cases "states L")
       (auto simp: reset_states_def zero_states_all_set map_replicate_const K_set_value_def
             split: option.splits)
next
  assume "stateful L \<and> batch_size L = Some bs \<and> 0 < bs \<and> states L \<noteq> []
        \<and> list_all (\<lambda>s. s \<noteq> None) (states L)" and "length vs \<noteq> length (states L)"
  then show "reset_states L (Some vs) =
             (Some (ValueError (States_count (length (states L)) (length vs))), L)"
    by (cases "states L") (auto simp: reset_states_def)
next
  assume a: "stateful L \<and> batch_size L = Some bs \<and> 0 < bs \<and> states L \<noteq> []
        \<and> list_all (\<lambda>s. s \<noteq> None) (states L)"
    and b: "length vs = length (states L) \<and> k < length vs
             \<and> \<not> has_shape bs (units L) (vs ! k)
             \<and> (\<forall>j<k. has_shape bs (units L) (vs ! j))"
  have "set_states bs (units L) 0 vs (states L) =
          (Some (ValueError (State_shape (0 + k))),
           map Some (take k vs) @ drop k (states L))"
    using a b by (intro set_states_mismatch) auto
  then show "reset_states L (Some vs) =
             (Some (ValueError (State_shape k)),
              L\<lparr>states := map Some (take k vs) @ drop k (states L)\<rparr>)"
    using a b by (cases "states L") (auto simp: reset_states_def)
qed

theorem reset_states_behaviour_witness:
  "fst (reset_states (example_stateful\<lparr>stateful := False\<rparr>) None)
     = Some (AttributeError ''Layer must be stateful.'')
   \<and> snd (reset_states (example_stateful\<lparr>stateful := False\<rparr>) None)
     = example_stateful\<lparr>stateful := False\<rparr>
   \<and> reset_states (example_stateful\<lparr>states := [Some [[3]], Some [[4]]]\<rparr>) None
     = (None, example_stateful\<lparr>states := [Some [[0]], Some [[0]]]\<rparr>)
   \<and> reset_states example_stateful (Some [[[5]]])
     = (Some (ValueError (States_count 2 1)), example_stateful)
   \<and> reset_states example_stateful (Some [[[5]], [[1, 2]]])
     = (Some (ValueError (State_shape 1)),
        example_stateful\<lparr>states := [Some [[5]], Some [[0]]]\<rparr>)"
  using reset_states_behaviour[of "example_stateful\<lparr>stateful := False\<rparr>" None 1 "[]" 0]
    reset_states_behaviour[of "example_stateful\<lparr>states := [Some [[3]], Some [[4]]]\<rparr>"
      None 1 "[[[5]]]" 0]
    reset_states_behaviour[of example_stateful None 1 "[[[5]]]" 0]
    reset_states_behaviour[of example_stateful None 1 "[[[5]], [[1, 2]]]" 1]
  by (simp add: example_stateful_def has_shape_def K_zeros_def)

text \<open>The states before the first value of a wrong shape are updated: here state 0
  holds \<open>[[0]]\<close> before the call and \<open>[[5]]\<close> after it, although the value passed for
  state 1 has the shape \<open>(1, 2)\<close> where \<open>(1, 1)\<close> is expected and \<^verbatim>\<open>ValueError\<close> is
  raised.\<close>

theorem reset_states_updates_before_mismatch:
  "states example_stateful ! 0 = Some [[0]]
   \<and> fst (reset_states example_stateful (Some [[[5]], [[1, 2]]]))
       = Some (ValueError (State_shape 1))
   \<and> states (snd (reset_states example_stateful (Some [[[5]], [[1, 2]]]))) ! 0 = Some [[5]]"
  by (simp add: reset_states_def example_stateful_def has_shape_def K_set_value_def)

section \<open>The recurrence\<close>

lemma state_after_Cons:
  "state_after step c (x # xs) s0 (Suc t) =
     (case step x s0 c of Inl e \<Rightarrow> Inl e | Inr (_, s1) \<Rightarrow> state_after step c xs s1 t)"
  by (induction t) (auto split: sum.splits prod.splits)

lemma scan_Inr_iff:
  "scan step c xs s0 = Inr (outs, sf) \<longleftrightarrow>
     length outs = length xs \<and> state_after step c xs s0 (length xs) = Inr sf \<and>
     (\<forall>t<length xs. \<exists>s s'. state_after step c xs s0 t = Inr s \<and>
                      step (xs ! t) s c = Inr (outs ! t, s'))"
proof (induction xs arbitrary: s0 outs)
  case Nil
  then show ?case by auto
next
  case (Cons x xs)
  show ?case
  proof (cases "step x s0 c")
    case (Inl e)
    then show ?thesis by (auto simp del: state_after.simps(2))
  next
    case (Inr p)
    obtain out s1 where p: "p = (out, s1)" by (cases p)
    show ?thesis
    proof (cases outs)
      case Nil
      then show ?thesis using Inr p by (auto split: sum.splits)
    next
      case (Cons o1 outs')
      have "scan step c (x # xs) s0 = Inr (outs, sf) \<longleftrightarrow>
              o1 = out \<and> scan step c xs s1 = Inr (outs', sf)"
        using Inr p Cons by (auto split: sum.splits)
      also have "\<dots> \<longleftrightarrow> o1 = out \<and> length outs' = length xs \<and>
           state_after step c xs s1 (length xs) = Inr sf \<and>
           (\<forall>t<length xs. \<exists>s s'. state_after step c xs s1 t = Inr s \<and>
                      step (xs ! t) s c = Inr (outs' ! t, s'))"
        using Cons.IH[of s1 outs'] by simp
      also have "\<dots> \<longleftrightarrow> length outs = length (x # xs) \<and>
           state_after step c (x # xs) s0 (length (x # xs)) = Inr sf \<and>
           (\<forall>t<length (x # xs). \<exists>s s'. state_after step c (x # xs) s0 t = Inr s \<and>
                      step ((x # xs) ! t) s c = Inr (outs ! t, s'))"
        using Inr p Cons
        apply (simp only: length_Cons state_after_Cons All_less_Suc2 sum.case prod.case
            list.inject nth_Cons_0 nth_Cons_Suc state_after.simps(1))
        by auto
      finally show ?thesis .
    qed
  qed
qed

lemma example_rnn_call:
  "Recurrent_call (SimpleRNN_step example_rnn) (SimpleRNN_get_constants example_rnn)
     (SimpleRNN_preprocess_input example_rnn) example_rnn (Tensor [[[1], [5]]]) (Mask None)
     None None None example_backend
   = (Inr (Output (Sequences [[[1], [7]]])), example_rnn, example_backend)"
  by (simp add: Recurrent_call_def example_rnn_def Let_def call_initial_state_def
     call_tensor_def call_mask_of_def get_initial_state_def K_zeros_like3_def K_sum_axes12_def
     K_expand_dims_def K_tile_def SimpleRNN_get_constants_def SimpleRNN_preprocess_input_def
     K_rnn_def dimshuffle_def SimpleRNN_step_def K_dot_def eadd_def state_updates_def)

text \<open>
  Claim C1, as the code has it. When \<^verbatim>\<open>Recurrent.call\<close> returns on a call without a mask,
  its result is the
  fold of the step function over the timesteps of the preprocessed input, taken in the
  order of processing (the order of the input, reversed when \<^verbatim>\<open>go_backwards\<close> is set):
  there is at least one timestep; the states before timestep \<open>0\<close> are the initial states;
  at every timestep \<open>t\<close> the step function, applied to the input at \<open>t\<close>, the states
  produced at \<open>t - 1\<close> and the constants of the layer, gives the output at \<open>t\<close> and the
  states after \<open>t\<close>; the output returned is the sequence of all these outputs when
  \<^verbatim>\<open>return_sequences\<close> is set and the last of them otherwise.
\<close>

theorem call_folds_sequence:
  assumes "Recurrent_call step gc pp L inputs msk training initial_state time_dim B
             = (Inr res, L', B')"
    and "call_mask_of msk = None"
  shows "\<exists>c pre init outs B1 B2.
       gc (call_tensor inputs) None B = (Inr c, B1) \<and>
       pp (call_tensor inputs) None B1 = (Inr pre, B2) \<and>
       those (call_initial_state L inputs initial_state) = Some init \<and>
       (let seq = (if go_backwards L then rev (dimshuffle pre) else dimshuffle pre) in
          length outs = length seq \<and> 0 < length seq \<and>
          (\<forall>t<length seq. \<exists>s s'.
              state_after step c seq init t = Inr s \<and>
              step (seq ! t) s c = Inr (outs ! t, s') \<and>
              state_after step c seq init (Suc t) = Inr s') \<and>
          result_output res = (if return_sequences L then Sequences (dimshuffle outs)
                               else LastOutput (outs ! (length seq - 1))))"
proof -
  let ?x = "call_tensor inputs"
  let ?init = "call_initial_state L inputs initial_state"
  from assms obtain c B1 pre lo outsT sf where
    gc: "gc ?x None B = (Inr c, B1)" and pp: "pp ?x None B1 = (Inr pre, B')"
    and rnn: "K_rnn step pre ?init (go_backwards L) None c = Inr (lo, outsT, sf)"
    and res: "result_output res
                = (if return_sequences L then Sequences outsT else LastOutput lo)"
    by (auto simp: Recurrent_call_def Let_def result_output_def
        split: if_splits prod.splits sum.splits)
  let ?seq = "if go_backwards L then rev (dimshuffle pre) else dimshuffle pre"
  from rnn obtain init outs where init: "those ?init = Some init"
    and sc: "scan step c ?seq init = Inr (outs, sf)" and ne: "outs \<noteq> []"
    and lo: "lo = last outs" and oT: "outsT = dimshuffle outs"
    by (auto simp: K_rnn_def Let_def split: option.splits sum.splits if_splits)
  from sc have len: "length outs = length ?seq"
    and steps: "\<forall>t<length ?seq. \<exists>s s'. state_after step c ?seq init t = Inr s \<and>
                      step (?seq ! t) s c = Inr (outs ! t, s')"
    unfolding scan_Inr_iff by blast+
  have pos: "0 < length ?seq" using len ne by (cases outs) (auto split: if_splits)
  have last: "last outs = outs ! (length ?seq - 1)"
    using ne len by (simp add: last_conv_nth)
  have steps': "\<forall>t<length ?seq. \<exists>s s'. state_after step c ?seq init t = Inr s \<and>
                      step (?seq ! t) s c = Inr (outs ! t, s') \<and>
                      state_after step c ?seq init (Suc t) = Inr s'"
  proof (intro allI impI)
    fix t assume "t < length ?seq"
    with steps obtain s s' where a: "state_after step c ?seq init t = Inr s"
      and b: "step (?seq ! t) s c = Inr (outs ! t, s')" by blast
    then have "state_after step c ?seq init (Suc t) = Inr s'" by simp
    with a b show "\<exists>s s'. state_after step c ?seq init t = Inr s \<and>
                      step (?seq ! t) s c = Inr (outs ! t, s') \<and>
                      state_after step c ?seq init (Suc t) = Inr s'" by blast
  qed
  show ?thesis
    apply (rule exI[of _ c], rule exI[of _ pre], rule exI[of _ init], rule exI[of _ outs],
           rule exI[of _ B1], rule exI[of _ B'])
    using gc pp init len pos steps' res lo oT last
    by (simp add: Let_def)
qed

theorem call_folds_sequence_witness:
  "\<exists>c pre init outs B1 B2.
       SimpleRNN_get_constants example_rnn (call_tensor (Tensor [[[1], [5]]])) None
         example_backend = (Inr c, B1) \<and>
       SimpleRNN_preprocess_input example_rnn (call_tensor (Tensor [[[1], [5]]])) None B1
         = (Inr pre, B2) \<and>
       those (call_initial_state example_rnn (Tensor [[[1], [5]]]) None) = Some init \<and>
       (let seq = (if go_backwards example_rnn then rev (dimshuffle pre) else dimshuffle pre)
        in length outs = length seq \<and> 0 < length seq \<and>
          (\<forall>t<length seq. \<exists>s s'.
              state_after (SimpleRNN_step example_rnn) c seq init t = Inr s \<and>
              SimpleRNN_step example_rnn (seq ! t) s c = Inr (outs ! t, s') \<and>
              state_after (SimpleRNN_step example_rnn) c seq init (Suc t) = Inr s') \<and>
          result_output (Output (Sequences [[[1], [7]]]))
            = (if return_sequences example_rnn then Sequences (dimshuffle outs)
               else LastOutput (outs ! (length seq - 1))))"
proof -
  have m: "call_mask_of (Mask None) = None" by (simp add: call_mask_of_def)
  show ?thesis by (rule call_folds_sequence[OF example_rnn_call m])
qed

text \<open>With a mask the result is not this fold: here the mask is zero for the only sample
  at timestep 0, and the call returns the outputs \<open>0\<close> and \<open>5\<close>, where the step function
  gives \<open>1\<close> on the input and the initial state of timestep 0, and \<open>7\<close> on the input of
  timestep 1 and the state it would have produced.\<close>

theorem call_with_mask_keeps_masked_samples:
  "fst (Recurrent_call (SimpleRNN_step example_rnn) (SimpleRNN_get_constants example_rnn)
          (SimpleRNN_preprocess_input example_rnn) example_rnn (Tensor [[[1], [5]]])
          (Mask (Some [[0, 1]])) None None None example_backend)
     = Inr (Output (Sequences [[[0], [5]]]))
   \<and> SimpleRNN_step example_rnn [[1]] [[[0]]] (MScalar 1, MScalar 1) = Inr ([[1]], [[[1]]])
   \<and> SimpleRNN_step example_rnn [[5]] [[[1]]] (MScalar 1, MScalar 1) = Inr ([[7]], [[[7]]])"
  by (simp add: Recurrent_call_def example_rnn_def Let_def call_initial_state_def
     call_tensor_def call_mask_of_def get_initial_state_def K_zeros_like3_def K_sum_axes12_def
     K_expand_dims_def K_tile_def SimpleRNN_get_constants_def SimpleRNN_preprocess_input_def
     K_rnn_def dimshuffle_def SimpleRNN_step_def K_dot_def eadd_def state_updates_def
     mask_columns_def K_switch_def K_zeros_like_def)

section \<open>Stateful and stateless layers\<close>




section \<open>Dropout outside the training phase\<close>




























































section \<open>Dropout masks in the training phase\<close>


lemma dropped_or_ones_training:
  "learning_phase B \<Longrightarrow>
   dropped_or_ones (replicate n (replicate k 1)) level None B
     = (dropout_rows (rng_source B) level (rng_pos B) (replicate n (replicate k 1)),
        B\<lparr>rng_pos := rng_pos B + n * k\<rparr>)"
  by (simp add: dropped_or_ones_def K_in_train_phase_def K_dropout_def sum_list_replicate)

lemma three_masks_training:
  assumes "learning_phase B"
  shows "\<exists>c. three_masks (replicate n (replicate k 1)) level None B
           = (c, B\<lparr>rng_pos := rng_pos B + 3 * (n * k)\<rparr>)"
  using assms by (simp add: three_masks_def dropped_or_ones_training)

lemma four_masks_training:
  assumes "learning_phase B"
  shows "\<exists>c. four_masks (replicate n (replicate k 1)) level None B
           = (c, B\<lparr>rng_pos := rng_pos B + 4 * (n * k)\<rparr>)"
  using assms by (simp add: four_masks_def dropped_or_ones_training)




lemma length_dropout_rows: "length (dropout_rows src level p x) = length x"
  by (induction x arbitrary: p) auto





















section \<open>Gated state updates\<close>

lemma nth_eadd:
  "s < length (eadd a b) \<Longrightarrow> k < length (eadd a b ! s) \<Longrightarrow>
   eadd a b ! s ! k = a ! s ! k + b ! s ! k"
  by (simp add: eadd_def)

lemma nth_emul:
  "s < length (emul a b) \<Longrightarrow> k < length (emul a b ! s) \<Longrightarrow>
   emul a b ! s ! k = a ! s ! k * b ! s ! k"
  by (simp add: emul_def)

lemma nth_one_minus:
  "s < length z \<Longrightarrow> k < length (z ! s) \<Longrightarrow> one_minus z ! s ! k = 1 - z ! s ! k"
  by (simp add: one_minus_def)

lemma gated_sum_nth:
  assumes "s < length (eadd (emul f a) (emul g b))"
    and "k < length (eadd (emul f a) (emul g b) ! s)"
  shows "eadd (emul f a) (emul g b) ! s ! k = f ! s ! k * a ! s ! k + g ! s ! k * b ! s ! k"
  using assms by (simp add: eadd_def emul_def)

lemma gru_state_nth:
  assumes "s < length (eadd (emul z a) (emul (one_minus z) b))"
    and "k < length (eadd (emul z a) (emul (one_minus z) b) ! s)"
  shows "eadd (emul z a) (emul (one_minus z) b) ! s ! k
           = z ! s ! k * a ! s ! k + (1 - z ! s ! k) * b ! s ! k"
  using assms by (simp add: eadd_def emul_def one_minus_def)

lemma convex_between:
  fixes z a b :: real
  assumes "0 \<le> z" "z \<le> 1"
  shows "min a b \<le> z * a + (1 - z) * b \<and> z * a + (1 - z) * b \<le> max a b"
proof
  have "z * a + (1 - z) * b \<le> max a b"
    using assms by (intro convex_bound_le) auto
  then show "z * a + (1 - z) * b \<le> max a b" .
  have "z * (- a) + (1 - z) * (- b) \<le> max (- a) (- b)"
    using assms by (intro convex_bound_le) auto
  then show "min a b \<le> z * a + (1 - z) * b"
    by (simp add: algebra_simps min_def max_def split: if_splits)
qed

lemma GRU_gates_activated:
  "GRU_gates L x h cs = Inr (z, hh) \<Longrightarrow>
   (\<exists>p. z = apply_activation (gru.recurrent_activation L) p)
   \<and> (\<exists>q. hh = apply_activation (gru.activation L) q)"
  by (auto simp: GRU_gates_def Let_def split_def split: if_splits sum.splits)

lemma LSTM_gates_activated:
  "LSTM_gates L x h cs = Inr (i, f, cand, og) \<Longrightarrow>
   (\<exists>p. i = apply_activation (lstm.recurrent_activation L) p)
   \<and> (\<exists>p. f = apply_activation (lstm.recurrent_activation L) p)
   \<and> (\<exists>q. cand = apply_activation (lstm.activation L) q)"
  by (auto simp: LSTM_gates_def Let_def split_def split: if_splits sum.splits)

lemma example_gru_gates:
  "GRU_gates example_gru [[1]] [[0]] no_masks3 = Inr ([[7 / 10]], [[1]])"
  by (simp add: GRU_gates_def example_gru_def no_masks3_def Let_def add_bias_def K_dot_def
      times_mask_def cols_def cols_from_def eadd_def emul_def apply_activation_def
      hard_sigmoid_def)

lemma example_lstm_gates:
  "LSTM_gates example_lstm [[1]] [[0]] no_masks4
     = Inr ([[7 / 10]], [[7 / 10]], [[1]], [[7 / 10]])"
  by (simp add: LSTM_gates_def example_lstm_def no_masks4_def Let_def add_bias_def K_dot_def
      times_mask_def cols_def cols_from_def eadd_def emul_def apply_activation_def
      hard_sigmoid_def)

text \<open>
  Claim C4. Whenever the gates of a \<^verbatim>\<open>GRU\<close> step are computed, with update gate \<open>z\<close> and
  candidate \<open>hh\<close>, the step returns the new state \<open>h = z * h_tm1 + (1 - z) * hh\<close> as its
  output and only state, where \<open>z\<close> is the recurrent activation (a sigmoid) of the gate's
  pre-activation; so every component of \<open>h\<close> is \<open>z * h_tm1 + (1 - z) * hh\<close> at that
  component, lies between the components of \<open>h_tm1\<close> and \<open>hh\<close> when the gate component is
  in \<open>[0, 1]\<close>, is that of \<open>h_tm1\<close> when the gate is 1 and that of \<open>hh\<close> when the gate is
  0. Whenever the gates of an \<^verbatim>\<open>LSTM\<close> step are computed, with input gate \<open>i\<close>, forget
  gate \<open>f\<close> and activated candidate, the step returns the new cell state
  \<open>c = f * c_tm1 + i * candidate\<close> as its second state, where \<open>f\<close> and \<open>i\<close> are recurrent
  activations.
\<close>

theorem gated_state_updates:
  assumes "GRU_gates G x h_tm1 cs = Inr (z, hh)"
    and "LSTM_gates M x' h_tm1' cs' = Inr (i, f, candidate, og)"
  shows "(\<exists>h. GRU_step G x (h_tm1 # rest) cs = Inr (h, [h])
            \<and> h = eadd (emul z h_tm1) (emul (one_minus z) hh)
            \<and> (\<exists>p. z = apply_activation (gru.recurrent_activation G) p)
            \<and> (\<forall>s<length h. \<forall>k<length (h ! s).
                  h ! s ! k = z ! s ! k * h_tm1 ! s ! k + (1 - z ! s ! k) * hh ! s ! k
                  \<and> (0 \<le> z ! s ! k \<and> z ! s ! k \<le> 1 \<longrightarrow>
                       min (h_tm1 ! s ! k) (hh ! s ! k) \<le> h ! s ! k
                       \<and> h ! s ! k \<le> max (h_tm1 ! s ! k) (hh ! s ! k))
                  \<and> (z ! s ! k = 1 \<longrightarrow> h ! s ! k = h_tm1 ! s ! k)
                  \<and> (z ! s ! k = 0 \<longrightarrow> h ! s ! k = hh ! s ! k)))
       \<and> (\<exists>h c. LSTM_step M x' (h_tm1' # c_tm1 # rest') cs' = Inr (h, [h, c])
            \<and> c = eadd (emul f c_tm1) (emul i candidate)
            \<and> (\<exists>p. f = apply_activation (lstm.recurrent_activation M) p)
            \<and> (\<exists>p. i = apply_activation (lstm.recurrent_activation M) p)
            \<and> (\<forall>s<length c. \<forall>k<length (c ! s).
                  c ! s ! k = f ! s ! k * c_tm1 ! s ! k + i ! s ! k * candidate ! s ! k))"
proof (intro conjI)
  let ?h = "eadd (emul z h_tm1) (emul (one_minus z) hh)"
  have step: "GRU_step G x (h_tm1 # rest) cs = Inr (?h, [?h])"
    using assms(1) by (simp add: GRU_step_def Let_def)
  have act: "\<exists>p. z = apply_activation (gru.recurrent_activation G) p"
    using GRU_gates_activated[OF assms(1)] by blast
  have comp: "\<forall>s<length ?h. \<forall>k<length (?h ! s).
                  ?h ! s ! k = z ! s ! k * h_tm1 ! s ! k + (1 - z ! s ! k) * hh ! s ! k
                  \<and> (0 \<le> z ! s ! k \<and> z ! s ! k \<le> 1 \<longrightarrow>
                       min (h_tm1 ! s ! k) (hh ! s ! k) \<le> ?h ! s ! k
                       \<and> ?h ! s ! k \<le> max (h_tm1 ! s ! k) (hh ! s ! k))
                  \<and> (z ! s ! k = 1 \<longrightarrow> ?h ! s ! k = h_tm1 ! s ! k)
                  \<and> (z ! s ! k = 0 \<longrightarrow> ?h ! s ! k = hh ! s ! k)"
  proof (intro allI impI)
    fix s k assume s: "s < length ?h" and k: "k < length (?h ! s)"
    have e: "?h ! s ! k = z ! s ! k * h_tm1 ! s ! k + (1 - z ! s ! k) * hh ! s ! k"
      using s k by (rule gru_state_nth)
    show "?h ! s ! k = z ! s ! k * h_tm1 ! s ! k + (1 - z ! s ! k) * hh ! s ! k
          \<and> (0 \<le> z ! s ! k \<and> z ! s ! k \<le> 1 \<longrightarrow>
                min (h_tm1 ! s ! k) (hh ! s ! k) \<le> ?h ! s ! k
                \<and> ?h ! s ! k \<le> max (h_tm1 ! s ! k) (hh ! s ! k))
          \<and> (z ! s ! k = 1 \<longrightarrow> ?h ! s ! k = h_tm1 ! s ! k)
          \<and> (z ! s ! k = 0 \<longrightarrow> ?h ! s ! k = hh ! s ! k)"
      unfolding e using convex_between[of "z ! s ! k" "h_tm1 ! s ! k" "hh ! s ! k"] by simp
  qed
  show "\<exists>h. GRU_step G x (h_tm1 # rest) cs = Inr (h, [h])
            \<and> h = eadd (emul z h_tm1) (emul (one_minus z) hh)
            \<and> (\<exists>p. z = apply_activation (gru.recurrent_activation G) p)
            \<and> (\<forall>s<length h. \<forall>k<length (h ! s).
                  h ! s ! k = z ! s ! k * h_tm1 ! s ! k + (1 - z ! s ! k) * hh ! s ! k
                  \<and> (0 \<le> z ! s ! k \<and> z ! s ! k \<le> 1 \<longrightarrow>
                       min (h_tm1 ! s ! k) (hh ! s ! k) \<le> h ! s ! k
                       \<and> h ! s ! k \<le> max (h_tm1 ! s ! k) (hh ! s ! k))
                  \<and> (z ! s ! k = 1 \<longrightarrow> h ! s ! k = h_tm1 ! s ! k)
                  \<and> (z ! s ! k = 0 \<longrightarrow> h ! s ! k = hh ! s ! k))"
    using step act comp by blast
next
  let ?c = "eadd (emul f c_tm1) (emul i candidate)"
  let ?h = "emul og (apply_activation (lstm.activation M) ?c)"
  have step: "LSTM_step M x' (h_tm1' # c_tm1 # rest') cs' = Inr (?h, [?h, ?c])"
    using assms(2) by (simp add: LSTM_step_def Let_def)
  have act: "(\<exists>p. f = apply_activation (lstm.recurrent_activation M) p)"
    "(\<exists>p. i = apply_activation (lstm.recurrent_activation M) p)"
    using LSTM_gates_activated[OF assms(2)] by blast+
  have comp: "\<forall>s<length ?c. \<forall>k<length (?c ! s).
                  ?c ! s ! k = f ! s ! k * c_tm1 ! s ! k + i ! s ! k * candidate ! s ! k"
    using gated_sum_nth by blast
  show "\<exists>h c. LSTM_step M x' (h_tm1' # c_tm1 # rest') cs' = Inr (h, [h, c])
            \<and> c = eadd (emul f c_tm1) (emul i candidate)
            \<and> (\<exists>p. f = apply_activation (lstm.recurrent_activation M) p)
            \<and> (\<exists>p. i = apply_activation (lstm.recurrent_activation M) p)
            \<and> (\<forall>s<length c. \<forall>k<length (c ! s).
                  c ! s ! k = f ! s ! k * c_tm1 ! s ! k + i ! s ! k * candidate ! s ! k)"
    using step act comp by blast
qed

theorem gated_state_updates_witness:
  "GRU_gates example_gru [[1]] [[0]] no_masks3 = Inr ([[7 / 10]], [[1]])
   \<and> LSTM_gates example_lstm [[1]] [[0]] no_masks4
       = Inr ([[7 / 10]], [[7 / 10]], [[1]], [[7 / 10]])
   \<and> GRU_step example_gru [[1]] [[[0]]] no_masks3 = Inr ([[3 / 10]], [[[3 / 10]]])
   \<and> (\<exists>h. LSTM_step example_lstm [[1]] [[[0]], [[2]]] no_masks4
              = Inr (h, [h, [[21 / 10]]]))"
proof -
  note t = gated_state_updates[OF example_gru_gates example_lstm_gates, of "[]" "[[2]]" "[]"]
  from t obtain h where "GRU_step example_gru [[1]] [[[0]]] no_masks3 = Inr (h, [h])"
    and "h = eadd (emul [[7 / 10]] [[0]]) (emul (one_minus [[7 / 10]]) [[1]])"
    by blast
  then have g: "GRU_step example_gru [[1]] [[[0]]] no_masks3 = Inr ([[3 / 10]], [[[3 / 10]]])"
    by (simp add: eadd_def emul_def one_minus_def)
  from t obtain h' c where "LSTM_step example_lstm [[1]] [[[0]], [[2]]] no_masks4
                              = Inr (h', [h', c])"
    and "c = eadd (emul [[7 / 10]] [[2]]) (emul [[7 / 10]] [[1]])"
    by blast
  then have l: "\<exists>h. LSTM_step example_lstm [[1]] [[[0]], [[2]]] no_masks4
                      = Inr (h, [h, [[21 / 10]]])"
    by (simp add: eadd_def emul_def)
  show ?thesis using example_gru_gates example_lstm_gates g l by blast
qed

(*THEOREMS*)

end
